theory Spec2Isabelle
  imports Complex_Main
begin

section \<open>Shared data: Python errors and floating-point values\<close>

text \<open>
  Every \<^verbatim>\<open>raise\<close> of the two modules (and of the library calls they make) is a value of
  \<open>error\<close>, carrying the message. A floating-point entry is either a finite real or one
  of the three special values; rounding is not modelled.
\<close>

datatype error =
    RuntimeError string
  | ValueError string
  | AttributeError string
  | IndexError string
  | TypeError string

datatype fl = Finite real | PosInf | NegInf | NaN

fun isnan :: "fl \<Rightarrow> bool" where
  "isnan NaN = True"
| "isnan _ = False"

fun isfinite :: "fl \<Rightarrow> bool" where
  "isfinite (Finite _) = True"
| "isfinite _ = False"

section \<open>Multi-source dataset view (\<^verbatim>\<open>scDatasetFromList\<close>)\<close>

text \<open>
  Modelled from the spec: the per-dataset store (\<^verbatim>\<open>ZarrDataset\<close>, not part of the two
  source files) with its capability contract \<^verbatim>\<open>row_count\<close>, \<^verbatim>\<open>get_row\<close>,
  \<^verbatim>\<open>get_annotation_column\<close>. \<^verbatim>\<open>shape[0]\<close> is the number of expression rows.
\<close>

record 'r zarr_dataset =
  cells :: "'r list"
  obs :: "string \<Rightarrow> string list"

definition shape0 :: "'r zarr_dataset \<Rightarrow> nat" where
  "shape0 d = length (cells d)"

record 'r scDatasetFromList =
  data_list :: "'r zarr_dataset list"
  ncells_list :: "nat list"
  ncells :: nat
  obs_celltype :: string
  obs_study :: string
  data_idx :: "nat list"
  cell_idx :: "nat list"

text \<open>
  The two list comprehensions of the constructor:
  \<^verbatim>\<open>[n for n in range(len(ncells_list)) for i in range(ncells_list[n])]\<close> and
  \<^verbatim>\<open>[i for n in range(len(ncells_list)) for i in range(ncells_list[n])]\<close>.
\<close>

definition mk_data_idx :: "nat list \<Rightarrow> nat list" where
  "mk_data_idx ns = concat (map (\<lambda>n. map (\<lambda>i. n) [0..<ns ! n]) [0..<length ns])"

definition mk_cell_idx :: "nat list \<Rightarrow> nat list" where
  "mk_cell_idx ns = concat (map (\<lambda>n. map (\<lambda>i. i) [0..<ns ! n]) [0..<length ns])"

definition scDatasetFromList_init ::
  "'r zarr_dataset list \<Rightarrow> string \<Rightarrow> string \<Rightarrow> 'r scDatasetFromList" where
  "scDatasetFromList_init dl celltype study =
     (let nl = map shape0 dl in
      \<lparr> data_list = dl,
        ncells_list = nl,
        ncells = sum_list nl,
        obs_celltype = celltype,
        obs_study = study,
        data_idx = mk_data_idx nl,
        cell_idx = mk_cell_idx nl \<rparr>)"

definition len_ds :: "'r scDatasetFromList \<Rightarrow> nat" where
  "len_ds ds = ncells ds"

text \<open>
  Python list indexing: a negative index counts from the end, anything outside
  raises \<^verbatim>\<open>IndexError\<close>.
\<close>

definition py_index :: "'a list \<Rightarrow> int \<Rightarrow> error + 'a" where
  "py_index xs i =
     (if 0 \<le> i \<and> i < int (length xs) then Inr (xs ! nat i)
      else if i < 0 \<and> - int (length xs) \<le> i then Inr (xs ! nat (int (length xs) + i))
      else Inl (IndexError ''list index out of range''))"

text \<open>
  \<^verbatim>\<open>__getitem__\<close>: the global index is resolved through the two parallel sequences, then
  the expression row and the two annotations are read from the resolved store.
\<close>

definition getitem :: "'r scDatasetFromList \<Rightarrow> int \<Rightarrow> error + ('r \<times> string \<times> string)" where
  "getitem ds idx =
     (case py_index (data_idx ds) idx of Inl e \<Rightarrow> Inl e
      | Inr d \<Rightarrow>
     (case py_index (cell_idx ds) idx of Inl e \<Rightarrow> Inl e
      | Inr c \<Rightarrow>
     (case py_index (data_list ds) (int d) of Inl e \<Rightarrow> Inl e
      | Inr store \<Rightarrow>
     (case py_index (cells store) (int c) of Inl e \<Rightarrow> Inl e
      | Inr row \<Rightarrow>
     (case py_index (obs store (obs_celltype ds)) (int c) of Inl e \<Rightarrow> Inl e
      | Inr label \<Rightarrow>
     (case py_index (obs store (obs_study ds)) (int c) of Inl e \<Rightarrow> Inl e
      | Inr study \<Rightarrow> Inr (row, label, study)))))))"

section \<open>Cell embedding (\<^verbatim>\<open>CellEmbedding\<close>)\<close>

subsection \<open>The nearest-neighbour index\<close>

text \<open>
  The index is an object of the external library \<^verbatim>\<open>hnswlib\<close>. Its state is the
  distance space, the dimension, the search breadth \<^verbatim>\<open>ef\<close> and the indexed vectors.
  \<^verbatim>\<open>hnswlib.Index(space, dim)\<close> creates an index without elements (the library's initial
  \<^verbatim>\<open>ef\<close> is 10). \<^verbatim>\<open>set_ef\<close> takes an unsigned 64-bit size: an argument below 0 or from
  \<open>2\<^sup>6\<^sup>4\<close> on is refused with a \<^verbatim>\<open>TypeError\<close> and nothing is changed, any other argument
  overwrites the search breadth. Reading an index file (\<^verbatim>\<open>load_index\<close>) and answering a
  query (\<^verbatim>\<open>knn_query\<close>) are parameters of the model: the first may fail on a damaged
  file; the second gives its answer, or the error of a request the index cannot serve,
  together with the index as the library leaves it.
\<close>

record 'v hnsw_index =
  space :: string
  dim :: nat
  ef :: int
  elements :: "'v list"

definition Index :: "string \<Rightarrow> nat \<Rightarrow> 'v hnsw_index" where
  "Index s d = \<lparr> space = s, dim = d, ef = 10, elements = [] \<rparr>"

definition set_ef :: "int \<Rightarrow> 'v hnsw_index \<Rightarrow> error + 'v hnsw_index" where
  "set_ef e idx =
     (if 0 \<le> e \<and> e < 2 ^ 64 then Inr (idx\<lparr>ef := e\<rparr>)
      else Inl (TypeError ''set_ef(): incompatible function arguments.''))"

subsection \<open>The adapter object\<close>

text \<open>
  The fields of \<^verbatim>\<open>CellEmbedding\<close> that the three methods read or write. The encoder
  \<^verbatim>\<open>self.model\<close> is opaque: it maps a chunk of rows (converted to a tensor) to one
  embedding row per input row, or fails. \<^verbatim>\<open>BColors\<close> holds the two terminal escape
  strings used by the warning; their values are not in the source files.
\<close>

record ('a, 'v) cell_embedding =
  use_gpu :: bool
  knn :: "'v hnsw_index option"
  latent_dim :: nat
  model :: "'a list \<Rightarrow> error + fl list list"

record BColors =
  WARNING :: string
  ENDC :: string

text \<open>
  \<^verbatim>\<open>load_knn_index\<close>. The file system is a map from paths to the contents of regular
  files, so \<^verbatim>\<open>os.path.isfile\<close> is membership in its domain. The result is the outcome
  of the call, the adapter afterwards and the lines printed. The new index object is
  stored in \<^verbatim>\<open>self.knn\<close> before the file is read, so it stays there when reading fails.
\<close>

definition load_knn_index ::
  "(string \<Rightarrow> 'f option) \<Rightarrow> ('v hnsw_index \<Rightarrow> 'f \<Rightarrow> error + 'v hnsw_index) \<Rightarrow> BColors \<Rightarrow>
   ('a, 'v) cell_embedding \<Rightarrow> string \<Rightarrow>
   (error + unit) \<times> ('a, 'v) cell_embedding \<times> string list" where
  "load_knn_index fs load_index bc self knn_file =
     (case fs knn_file of
        Some blob \<Rightarrow>
          (let fresh = Index ''cosine'' (latent_dim self) in
           case load_index fresh blob of
             Inl e \<Rightarrow> (Inl e, self\<lparr>knn := Some fresh\<rparr>, [])
           | Inr loaded \<Rightarrow> (Inr (), self\<lparr>knn := Some loaded\<rparr>, []))
      | None \<Rightarrow>
          (Inr (), self\<lparr>knn := None\<rparr>,
           [WARNING bc @ ''Warning: No KNN index found at '' @ knn_file @ ENDC bc]))"

text \<open>
  \<^verbatim>\<open>get_nearest_neighbors\<close>: the outcome of the call and the adapter afterwards. When
  \<^verbatim>\<open>set_ef\<close> raises, the query is not reached and the adapter is as before; otherwise
  \<^verbatim>\<open>self.knn\<close> is the index object as the two library calls leave it.
\<close>

definition get_nearest_neighbors ::
  "('v hnsw_index \<Rightarrow> 'e \<Rightarrow> int \<Rightarrow> (error + 'r) \<times> 'v hnsw_index) \<Rightarrow>
   ('a, 'v) cell_embedding \<Rightarrow> 'e \<Rightarrow> int \<Rightarrow> int \<Rightarrow>
   (error + 'r) \<times> ('a, 'v) cell_embedding" where
  "get_nearest_neighbors knn_query self embeddings k ef_arg =
     (case knn self of
        None \<Rightarrow>
          (Inl (RuntimeError
             ''kNN is not initialized. If no kNN index file is found, run the method build_knn.''),
           self)
      | Some idx \<Rightarrow>
          (case set_ef ef_arg idx of
             Inl e \<Rightarrow> (Inl e, self)
           | Inr idx' \<Rightarrow>
               (case knn_query idx' embeddings k of
                  (answer, idx'') \<Rightarrow> (answer, self\<lparr>knn := Some idx''\<rparr>))))"

subsection \<open>Batched embedding\<close>

text \<open>
  The input of \<^verbatim>\<open>get_embeddings\<close> is dispatched on its run-time type: a numpy array, a
  torch tensor, a scipy CSR matrix (each a sequence of rows here; whether the CSR
  arrays are held in memory or fetched lazily does not change the rows), or an object of
  another type, given by the name of its type and its \<^verbatim>\<open>shape[0]\<close> when it has one.
\<close>

datatype 'a matrix =
    Ndarray "'a list"
  | TorchTensor "'a list"
  | Csr_matrix "'a list"
  | Other string "nat option"

fun mat_rows :: "'a matrix \<Rightarrow> 'a list option" where
  "mat_rows (Ndarray xs) = Some xs"
| "mat_rows (TorchTensor xs) = Some xs"
| "mat_rows (Csr_matrix xs) = Some xs"
| "mat_rows (Other ty sh) = None"

fun mat_shape0 :: "'a matrix \<Rightarrow> nat option" where
  "mat_shape0 (Ndarray xs) = Some (length xs)"
| "mat_shape0 (TorchTensor xs) = Some (length xs)"
| "mat_shape0 (Csr_matrix xs) = Some (length xs)"
| "mat_shape0 (Other ty sh) = sh"

fun type_name :: "'a matrix \<Rightarrow> string" where
  "type_name (Ndarray xs) = ''<class 'numpy.ndarray'>''"
| "type_name (TorchTensor xs) = ''<class 'torch.Tensor'>''"
| "type_name (Csr_matrix xs) = ''<class 'scipy.sparse._csr.csr_matrix'>''"
| "type_name (Other ty sh) = ty"

text \<open>
  \<^verbatim>\<open>range(0, stop, step)\<close> and the slice \<^verbatim>\<open>X[i : j]\<close>, with Python's rules: a zero step
  raises, a negative step counts down, a negative slice bound counts from the end and
  every bound is clipped to the sequence.
\<close>

definition py_range :: "int \<Rightarrow> int \<Rightarrow> error + int list" where
  "py_range stop step =
     (if step = 0 then Inl (ValueError ''range() arg 3 must not be zero'')
      else if 0 < step
        then Inr (map (\<lambda>k. int k * step) [0..<nat ((stop + step - 1) div step)])
        else Inr (map (\<lambda>k. int k * step) [0..<nat ((- stop - step - 1) div (- step))]))"

definition slice_bound :: "nat \<Rightarrow> int \<Rightarrow> nat" where
  "slice_bound n k = (if k < 0 then nat (int n + k) else min (nat k) n)"

definition py_slice :: "'a list \<Rightarrow> int \<Rightarrow> int \<Rightarrow> 'a list" where
  "py_slice xs i j =
     (let lo = slice_bound (length xs) i; hi = slice_bound (length xs) j
      in take (hi - lo) (drop lo xs))"

text \<open>The \<^verbatim>\<open>if\<close>/\<^verbatim>\<open>elif\<close> chain that picks the chunk; \<open>None\<close> is Python's \<^verbatim>\<open>None\<close>.\<close>

fun profiles :: "'a matrix \<Rightarrow> int \<Rightarrow> int \<Rightarrow> 'a list option" where
  "profiles (Ndarray xs) i buffer_size = Some (py_slice xs i (i + buffer_size))"
| "profiles (TorchTensor xs) i buffer_size = Some (py_slice xs i (i + buffer_size))"
| "profiles (Csr_matrix xs) i buffer_size = Some (py_slice xs i (i + buffer_size))"
| "profiles (Other ty sh) i buffer_size = None"

text \<open>
  The body of the \<^verbatim>\<open>for\<close> loop, run over the remaining values of \<^verbatim>\<open>i\<close>;
  \<open>embedding_parts\<close> is the list built so far. Moving a chunk to the GPU does not
  change its values.
\<close>

fun embed_loop ::
  "('a, 'v) cell_embedding \<Rightarrow> 'a matrix \<Rightarrow> int \<Rightarrow> fl list list list \<Rightarrow> int list \<Rightarrow>
   error + fl list list list" where
  "embed_loop self X buffer_size embedding_parts [] = Inr embedding_parts"
| "embed_loop self X buffer_size embedding_parts (i # rest) =
     (case profiles X i buffer_size of
        None \<Rightarrow> Inl (RuntimeError (''Unknown data type '' @ type_name X @ ''.''))
      | Some chunk \<Rightarrow>
          (case model self chunk of
             Inl e \<Rightarrow> Inl e
           | Inr part \<Rightarrow> embed_loop self X buffer_size (embedding_parts @ [part]) rest))"

text \<open>
  The first half of \<^verbatim>\<open>get_embeddings\<close>: the sentinel \<^verbatim>\<open>-1\<close> is replaced by
  \<^verbatim>\<open>X.shape[0]\<close>, then the loop runs over \<^verbatim>\<open>range(0, num_cells, buffer_size)\<close>.
\<close>

definition resolve_num_cells :: "'a matrix \<Rightarrow> int \<Rightarrow> error + int" where
  "resolve_num_cells X num_cells =
     (if num_cells = - 1
      then (case mat_shape0 X of
              None \<Rightarrow> Inl (AttributeError ''shape'')
            | Some r \<Rightarrow> Inr (int r))
      else Inr num_cells)"

definition embedding_parts_of ::
  "('a, 'v) cell_embedding \<Rightarrow> 'a matrix \<Rightarrow> int \<Rightarrow> int \<Rightarrow> error + fl list list list" where
  "embedding_parts_of self X num_cells buffer_size =
     (case resolve_num_cells X num_cells of
        Inl e \<Rightarrow> Inl e
      | Inr n \<Rightarrow>
          (case py_range n buffer_size of
             Inl e \<Rightarrow> Inl e
           | Inr steps \<Rightarrow> embed_loop self X buffer_size [] steps))"

text \<open>
  The second half: the two checks after the loop. \<^verbatim>\<open>torch.vstack\<close> puts the rows of the
  parts one after the other, and \<^verbatim>\<open>np.isnan(embedding).any()\<close> looks for a NaN entry.
\<close>

definition vstack :: "'b list list \<Rightarrow> 'b list" where
  "vstack parts = concat parts"

definition get_embeddings ::
  "('a, 'v) cell_embedding \<Rightarrow> 'a matrix \<Rightarrow> int \<Rightarrow> int \<Rightarrow> error + fl list list" where
  "get_embeddings self X num_cells buffer_size =
     (case embedding_parts_of self X num_cells buffer_size of
        Inl e \<Rightarrow> Inl e
      | Inr embedding_parts \<Rightarrow>
          if embedding_parts = [] then Inl (RuntimeError ''No valid cells detected.'')
          else (let embedding = vstack embedding_parts
                in if list_ex (list_ex isnan) embedding
                   then Inl (RuntimeError ''NaN detected in embeddings.'')
                   else Inr embedding))"

text \<open>
  The chunks that the loop hands to the encoder, in order, for a list of loop indices.
\<close>

definition fed_chunks :: "'a matrix \<Rightarrow> int \<Rightarrow> int list \<Rightarrow> 'a list list" where
  "fed_chunks X buffer_size steps = List.map_filter (\<lambda>i. profiles X i buffer_size) steps"

text \<open>
  Stand-ins for the encoder, used at concrete inputs: one embedding row per input row,
  every row holding the single entry \<open>v\<close>.
\<close>

definition const_encoder :: "fl \<Rightarrow> 'a list \<Rightarrow> error + fl list list" where
  "const_encoder v rows = Inr (map (\<lambda>r. [v]) rows)"

definition demo_embedder :: "fl \<Rightarrow> 'v hnsw_index option \<Rightarrow> (nat, 'v) cell_embedding" where
  "demo_embedder v ix = \<lparr> use_gpu = False, knn = ix, latent_dim = 1, model = const_encoder v \<rparr>"

definition demo_index :: "int \<Rightarrow> nat hnsw_index" where
  "demo_index e = \<lparr> space = ''cosine'', dim = 1, ef = e, elements = [7, 8, 9] \<rparr>"

definition demo_query ::
  "nat hnsw_index \<Rightarrow> nat \<Rightarrow> int \<Rightarrow> (error + nat list) \<times> nat hnsw_index" where
  "demo_query ix q k = (Inr (take (nat k) (elements ix)), ix)"

definition demo_colors :: BColors where
  "demo_colors = \<lparr> WARNING = ''[93m'', ENDC = ''[0m'' \<rparr>"

section \<open>Weighted sampling (\<^verbatim>\<open>MetricLearningZarrDataModule\<close>)\<close>

text \<open>
  Floating-point division and logarithm as numpy computes them: dividing by zero gives
  an infinity (or NaN for \<^verbatim>\<open>0/0\<close>) instead of raising, and \<^verbatim>\<open>np.log(0)\<close> is \<^verbatim>\<open>-inf\<close>.
\<close>

definition np_log :: "nat \<Rightarrow> fl" where
  "np_log n = (if n = 0 then NegInf else Finite (ln (real n)))"

fun np_div :: "real \<Rightarrow> fl \<Rightarrow> fl" where
  "np_div x (Finite y) =
     (if y = 0 then (if x = 0 then NaN else if 0 < x then PosInf else NegInf)
      else Finite (x / y))"
| "np_div x PosInf = Finite 0"
| "np_div x NegInf = Finite 0"
| "np_div x NaN = NaN"

text \<open>
  \<^verbatim>\<open>collections.Counter\<close>: the number of occurrences, 0 for a value that does not occur.
\<close>

definition Counter :: "'a list \<Rightarrow> 'a \<Rightarrow> nat" where
  "Counter xs x = count_list xs x"

text \<open>
  \<^verbatim>\<open>torch.utils.data.WeightedRandomSampler(weights, num_samples)\<close>: the constructor
  rejects a sample count that is not positive; \<^verbatim>\<open>replacement\<close> defaults to true.
\<close>

record sampler =
  weights :: "fl list"
  num_samples :: nat
  replacement :: bool

definition WeightedRandomSampler :: "fl list \<Rightarrow> nat \<Rightarrow> error + sampler" where
  "WeightedRandomSampler w n =
     (if n = 0
      then Inl (ValueError
        ''num_samples should be a positive integer value, but got num_samples=0'')
      else Inr \<lparr> weights = w, num_samples = n, replacement = True \<rparr>)"

text \<open>
  \<^verbatim>\<open>get_sampler_weights\<close>. Python's \<^verbatim>\<open>1.0 / class_sample_count[t]\<close> divides by the count of
  an element of \<^verbatim>\<open>labels\<close> in \<^verbatim>\<open>labels\<close>, which is at least 1, so this division is finite;
  dividing by \<^verbatim>\<open>np.log(...)\<close> is a numpy division. With studies the comprehension runs
  over \<^verbatim>\<open>range(len(labels))\<close> and reads \<^verbatim>\<open>studies[i]\<close>, which raises when \<^verbatim>\<open>studies\<close> is
  the shorter list.
\<close>

definition get_sampler_weights :: "'l list \<Rightarrow> 's list option \<Rightarrow> error + sampler" where
  "get_sampler_weights labels studies =
     (case studies of
        None \<Rightarrow>
          (let class_sample_count = Counter labels;
               sample_weights = map (\<lambda>t. Finite (1 / real (class_sample_count t))) labels
           in WeightedRandomSampler sample_weights (length sample_weights))
      | Some st \<Rightarrow>
          (let class_sample_count = Counter labels;
               study_sample_count = Counter st
           in if length st < length labels
              then Inl (IndexError ''list index out of range'')
              else (let sample_weights =
                          map (\<lambda>i. np_div (1 / real (class_sample_count (labels ! i)))
                                          (np_log (study_sample_count (st ! i))))
                              [0..<length labels]
                    in WeightedRandomSampler sample_weights (length sample_weights))))"

text \<open>
  \<^verbatim>\<open>two_way_weighting\<close> is three pandas calls. A data frame is its row labels, its column
  labels and its cells. \<^verbatim>\<open>pd.crosstab(vec1, vec2)\<close> has one row per value of \<^verbatim>\<open>vec1\<close>, one
  column per value of \<^verbatim>\<open>vec2\<close> and in each cell the number of positions where the two
  values occur together; it rejects sequences of different lengths. pandas orders the labels,
  which does not change the dictionary returned, so they are kept in order of appearance.
  \<^verbatim>\<open>1 / counts\<close> divides cell by cell, \<^verbatim>\<open>replace(np.inf, 0)\<close> overwrites the cells equal to
  \<^verbatim>\<open>+inf\<close>, and \<^verbatim>\<open>unstack().to_dict()\<close> lists the cells column by column under the key
  (column label, row label).
\<close>

record ('r, 'c, 'v) data_frame =
  df_index :: "'r list"
  df_columns :: "'c list"
  df_at :: "'r \<Rightarrow> 'c \<Rightarrow> 'v"

definition crosstab :: "'r list \<Rightarrow> 'c list \<Rightarrow> error + ('r, 'c, nat) data_frame" where
  "crosstab vec1 vec2 =
     (if length vec1 = length vec2
      then Inr \<lparr> df_index = remdups vec1, df_columns = remdups vec2,
                 df_at = (\<lambda>r c. count_list (zip vec1 vec2) (r, c)) \<rparr>
      else Inl (ValueError ''All arrays must be of the same length''))"

definition df_map :: "('v \<Rightarrow> 'w) \<Rightarrow> ('r, 'c, 'v) data_frame \<Rightarrow> ('r, 'c, 'w) data_frame" where
  "df_map f d =
     \<lparr> df_index = df_index d, df_columns = df_columns d, df_at = (\<lambda>r c. f (df_at d r c)) \<rparr>"

definition one_over :: "nat \<Rightarrow> fl" where
  "one_over n = np_div 1 (Finite (real n))"

fun replace_inf_0 :: "fl \<Rightarrow> fl" where
  "replace_inf_0 PosInf = Finite 0"
| "replace_inf_0 v = v"

definition unstack_to_dict :: "('r, 'c, 'v) data_frame \<Rightarrow> (('c \<times> 'r) \<times> 'v) list" where
  "unstack_to_dict d =
     concat (map (\<lambda>c. map (\<lambda>r. ((c, r), df_at d r c)) (df_index d)) (df_columns d))"

definition two_way_weighting :: "'r list \<Rightarrow> 'c list \<Rightarrow> error + (('c \<times> 'r) \<times> fl) list" where
  "two_way_weighting vec1 vec2 =
     (case crosstab vec1 vec2 of
        Inl e \<Rightarrow> Inl e
      | Inr counts \<Rightarrow>
          (let weights_matrix = df_map replace_inf_0 (df_map one_over counts)
           in Inr (unstack_to_dict weights_matrix)))"

section \<open>Index mapping of the multi-source view\<close>

lemma mk_data_idx_snoc:
  "mk_data_idx (ns @ [m]) = mk_data_idx ns @ replicate m (length ns)"
proof -
  have "map (\<lambda>n. map (\<lambda>i. n) [0..<(ns @ [m]) ! n]) [0..<length ns]
      = map (\<lambda>n. map (\<lambda>i. n) [0..<ns ! n]) [0..<length ns]"
    by (rule map_cong) (simp_all add: nth_append)
  then have "concat (map (\<lambda>n. map (\<lambda>i. n) [0..<(ns @ [m]) ! n]) [0..<length ns])
      = mk_data_idx ns"
    unfolding mk_data_idx_def by (rule arg_cong)
  moreover have "mk_data_idx (ns @ [m])
      = concat (map (\<lambda>n. map (\<lambda>i. n) [0..<(ns @ [m]) ! n]) [0..<length ns])
        @ map (\<lambda>i. length ns) [0..<m]"
    unfolding mk_data_idx_def by simp
  ultimately show ?thesis
    by (simp add: map_replicate_const)
qed

lemma mk_cell_idx_snoc:
  "mk_cell_idx (ns @ [m]) = mk_cell_idx ns @ [0..<m]"
proof -
  have "map (\<lambda>n. map (\<lambda>i. i) [0..<(ns @ [m]) ! n]) [0..<length ns]
      = map (\<lambda>n. map (\<lambda>i. i) [0..<ns ! n]) [0..<length ns]"
    by (rule map_cong) (simp_all add: nth_append)
  then have "concat (map (\<lambda>n. map (\<lambda>i. i) [0..<(ns @ [m]) ! n]) [0..<length ns])
      = mk_cell_idx ns"
    unfolding mk_cell_idx_def by (rule arg_cong)
  moreover have "mk_cell_idx (ns @ [m])
      = concat (map (\<lambda>n. map (\<lambda>i. i) [0..<(ns @ [m]) ! n]) [0..<length ns])
        @ map (\<lambda>i. i) [0..<m]"
    unfolding mk_cell_idx_def by simp
  ultimately show ?thesis
    by simp
qed

lemma mk_data_idx_Nil: "mk_data_idx [] = []"
  by (simp add: mk_data_idx_def)

lemma mk_cell_idx_Nil: "mk_cell_idx [] = []"
  by (simp add: mk_cell_idx_def)

lemma length_mk_data_idx: "length (mk_data_idx ns) = sum_list ns"
  by (induction ns rule: rev_induct) (simp_all add: mk_data_idx_Nil mk_data_idx_snoc)

lemma length_mk_cell_idx: "length (mk_cell_idx ns) = sum_list ns"
  by (induction ns rule: rev_induct) (simp_all add: mk_cell_idx_Nil mk_cell_idx_snoc)

lemma idx_resolves:
  "idx < sum_list ns \<Longrightarrow>
     mk_data_idx ns ! idx < length ns \<and>
     mk_cell_idx ns ! idx < ns ! (mk_data_idx ns ! idx) \<and>
     idx = sum_list (take (mk_data_idx ns ! idx) ns) + mk_cell_idx ns ! idx"
proof (induction ns rule: rev_induct)
  case Nil
  then show ?case by simp
next
  case (snoc m ns)
  show ?case
  proof (cases "idx < sum_list ns")
    case True
    note ih = snoc.IH [OF True]
    have d: "mk_data_idx (ns @ [m]) ! idx = mk_data_idx ns ! idx"
      using True by (simp add: mk_data_idx_snoc nth_append length_mk_data_idx)
    have c: "mk_cell_idx (ns @ [m]) ! idx = mk_cell_idx ns ! idx"
      using True by (simp add: mk_cell_idx_snoc nth_append length_mk_cell_idx)
    from ih show ?thesis
      by (simp add: d c nth_append)
  next
    case False
    with snoc.prems have lt: "idx - sum_list ns < m" by simp
    have d: "mk_data_idx (ns @ [m]) ! idx = length ns"
      using False lt by (simp add: mk_data_idx_snoc nth_append length_mk_data_idx)
    have c: "mk_cell_idx (ns @ [m]) ! idx = idx - sum_list ns"
      using False lt by (simp add: mk_cell_idx_snoc nth_append length_mk_cell_idx)
    from False lt show ?thesis
      by (simp add: d c)
  qed
qed

text \<open>The row ranges of the stores do not overlap: prefix sums grow by whole stores.\<close>

lemma prefix_sum_step:
  "n < n' \<Longrightarrow> n' \<le> length ns \<Longrightarrow>
     sum_list (take n ns) + ns ! n \<le> sum_list (take n' (ns :: nat list))"
proof (induction ns arbitrary: n n')
  case Nil
  then show ?case by simp
next
  case (Cons a ns)
  show ?case
  proof (cases n)
    case 0
    with Cons.prems obtain k where "n' = Suc k" by (cases n') auto
    with 0 show ?thesis by simp
  next
    case (Suc j)
    with Cons.prems obtain k where k: "n' = Suc k" "j < k" "k \<le> length ns"
      by (cases n') auto
    from Cons.IH [OF k(2) k(3)] Suc k show ?thesis by simp
  qed
qed

lemma range_decomposition_unique:
  assumes "n < length (ns :: nat list)" "i < ns ! n" "n' < length ns" "i' < ns ! n'"
    and "sum_list (take n ns) + i = sum_list (take n' ns) + i'"
  shows "n = n' \<and> i = i'"
proof -
  have "\<not> n < n'"
    using prefix_sum_step [of n n' ns] assms by auto
  moreover have "\<not> n' < n"
    using prefix_sum_step [of n' n ns] assms by auto
  ultimately have "n = n'" by simp
  with assms show ?thesis by simp
qed

text \<open>
  C3. A view built from stores with row counts \<open>R\<^sub>0 \<dots> R\<^sub>n\<^sub>-\<^sub>1\<close> has length \<open>\<Sum> R\<^sub>i\<close>, and both
  parallel sequences have that length. Every global index \<open>idx\<close> below the total is resolved
  to a store index \<open>d\<close> inside the list and a local row \<open>c\<close> inside that store, with
  \<open>idx = R\<^sub>0 + \<dots> + R\<^sub>d\<^sub>-\<^sub>1 + c\<close> (row ranges flattened in list order); no other pair
  of a store and a valid local row sits at that position.
\<close>

theorem multi_source_index_mapping:
  "let ds = scDatasetFromList_init dl celltype study in
     len_ds ds = sum_list (map shape0 dl) \<and>
     length (data_idx ds) = len_ds ds \<and>
     length (cell_idx ds) = len_ds ds \<and>
     (\<forall>idx < len_ds ds.
        data_idx ds ! idx < length dl \<and>
        cell_idx ds ! idx < shape0 (dl ! (data_idx ds ! idx)) \<and>
        idx = sum_list (take (data_idx ds ! idx) (map shape0 dl)) + cell_idx ds ! idx \<and>
        (\<forall>n i. n < length dl \<and> i < shape0 (dl ! n) \<and>
               idx = sum_list (take n (map shape0 dl)) + i
           \<longrightarrow> n = data_idx ds ! idx \<and> i = cell_idx ds ! idx))"
proof -
  let ?ns = "map shape0 dl"
  let ?ds = "scDatasetFromList_init dl celltype study"
  have fields: "len_ds ?ds = sum_list ?ns" "data_idx ?ds = mk_data_idx ?ns"
    "cell_idx ?ds = mk_cell_idx ?ns"
    by (simp_all add: scDatasetFromList_init_def len_ds_def Let_def)
  have "\<forall>idx < sum_list ?ns.
          mk_data_idx ?ns ! idx < length dl \<and>
          mk_cell_idx ?ns ! idx < shape0 (dl ! (mk_data_idx ?ns ! idx)) \<and>
          idx = sum_list (take (mk_data_idx ?ns ! idx) ?ns) + mk_cell_idx ?ns ! idx \<and>
          (\<forall>n i. n < length dl \<and> i < shape0 (dl ! n) \<and> idx = sum_list (take n ?ns) + i
             \<longrightarrow> n = mk_data_idx ?ns ! idx \<and> i = mk_cell_idx ?ns ! idx)"
  proof (intro allI impI)
    fix idx
    assume lt: "idx < sum_list ?ns"
    note r = idx_resolves [OF lt]
    from r have d: "mk_data_idx ?ns ! idx < length dl"
      by simp
    from r have c: "mk_cell_idx ?ns ! idx < ?ns ! (mk_data_idx ?ns ! idx)"
      by (rule conjunct1 [OF conjunct2])
    from r have e: "idx = sum_list (take (mk_data_idx ?ns ! idx) ?ns) + mk_cell_idx ?ns ! idx"
      by (rule conjunct2 [OF conjunct2])
    have u: "n = mk_data_idx ?ns ! idx \<and> i = mk_cell_idx ?ns ! idx"
      if "n < length dl \<and> i < shape0 (dl ! n) \<and> idx = sum_list (take n ?ns) + i" for n i
    proof -
      from that have "n < length ?ns" "i < ?ns ! n" by simp_all
      moreover from d c have "mk_data_idx ?ns ! idx < length ?ns"
        "mk_cell_idx ?ns ! idx < ?ns ! (mk_data_idx ?ns ! idx)" by simp_all
      moreover from that e
      have "sum_list (take n ?ns) + i
          = sum_list (take (mk_data_idx ?ns ! idx) ?ns) + mk_cell_idx ?ns ! idx"
        by simp
      ultimately show ?thesis
        by (rule range_decomposition_unique)
    qed
    from d c e u show
      "mk_data_idx ?ns ! idx < length dl \<and>
       mk_cell_idx ?ns ! idx < shape0 (dl ! (mk_data_idx ?ns ! idx)) \<and>
       idx = sum_list (take (mk_data_idx ?ns ! idx) ?ns) + mk_cell_idx ?ns ! idx \<and>
       (\<forall>n i. n < length dl \<and> i < shape0 (dl ! n) \<and> idx = sum_list (take n ?ns) + i
          \<longrightarrow> n = mk_data_idx ?ns ! idx \<and> i = mk_cell_idx ?ns ! idx)"
      by simp
  qed
  then show ?thesis
    unfolding Let_def fields by (simp add: length_mk_data_idx length_mk_cell_idx)
qed

theorem multi_source_index_mapping_witness:
  "let dl = [\<lparr>cells = [10, 11, 12 :: nat], obs = (\<lambda>k. [])\<rparr>,
             \<lparr>cells = [20, 21, 22, 23, 24], obs = (\<lambda>k. [])\<rparr>,
             \<lparr>cells = [30, 31], obs = (\<lambda>k. [])\<rparr>];
       ds = scDatasetFromList_init dl ''celltype_name'' ''study''
   in len_ds ds = 10 \<and>
      data_idx ds = [0, 0, 0, 1, 1, 1, 1, 1, 2, 2] \<and>
      cell_idx ds = [0, 1, 2, 0, 1, 2, 3, 4, 0, 1] \<and>
      (6 :: nat) < len_ds ds \<and>
      data_idx ds ! 6 < length dl \<and>
      cell_idx ds ! 6 < shape0 (dl ! (data_idx ds ! 6)) \<and>
      6 = sum_list (take (data_idx ds ! 6) (map shape0 dl)) + cell_idx ds ! 6"
proof -
  let ?dl = "[\<lparr>cells = [10, 11, 12 :: nat], obs = (\<lambda>k. [])\<rparr>,
             \<lparr>cells = [20, 21, 22, 23, 24], obs = (\<lambda>k. [])\<rparr>,
             \<lparr>cells = [30, 31], obs = (\<lambda>k. [])\<rparr>]"
  let ?ds = "scDatasetFromList_init ?dl ''celltype_name'' ''study''"
  have ns: "map shape0 ?dl = [3, 5, 2]"
    by (simp add: shape0_def)
  have d: "mk_data_idx [3, 5, 2] = [0, 0, 0, 1, 1, 1, 1, 1, 2, 2]"
    by code_simp
  have c: "mk_cell_idx [3, 5, 2] = [0, 1, 2, 0, 1, 2, 3, 4, 0, 1]"
    by code_simp
  have f: "len_ds ?ds = 10" "data_idx ?ds = [0, 0, 0, 1, 1, 1, 1, 1, 2, 2]"
    "cell_idx ?ds = [0, 1, 2, 0, 1, 2, 3, 4, 0, 1]"
    unfolding scDatasetFromList_init_def len_ds_def Let_def ns by (simp_all add: d c)
  have lt: "(6 :: nat) < len_ds ?ds"
    by (simp add: f)
  from multi_source_index_mapping [of ?dl "''celltype_name''" "''study''"] lt
  have "data_idx ?ds ! 6 < length ?dl \<and>
      cell_idx ?ds ! 6 < shape0 (?dl ! (data_idx ?ds ! 6)) \<and>
      6 = sum_list (take (data_idx ?ds ! 6) (map shape0 ?dl)) + cell_idx ?ds ! 6"
    unfolding Let_def by blast
  with f lt show ?thesis
    unfolding Let_def by blast
qed

section \<open>The index adapter\<close>

text \<open>
  C5. When no index has been loaded (\<^verbatim>\<open>self.knn\<close> is \<^verbatim>\<open>None\<close>),
  \<^verbatim>\<open>get_nearest_neighbors\<close> fails with the error whose message tells the caller to run
  \<^verbatim>\<open>build_knn\<close>, for every embeddings array, \<^verbatim>\<open>k\<close> and \<^verbatim>\<open>ef\<close>. The outcome is the same
  whatever the query function of the library would answer, so no index is queried, and
  the adapter is left as it was.
\<close>

theorem query_without_index_fails:
  "knn self = None \<Longrightarrow>
     get_nearest_neighbors knn_query self embeddings k ef_arg =
       (Inl (RuntimeError
          ''kNN is not initialized. If no kNN index file is found, run the method build_knn.''),
        self)"
  by (simp add: get_nearest_neighbors_def)

theorem query_without_index_fails_witness:
  "knn (demo_embedder (Finite 0) None) = None \<and>
   get_nearest_neighbors demo_query (demo_embedder (Finite 0) None) 3 50 100 =
     (Inl (RuntimeError
        ''kNN is not initialized. If no kNN index file is found, run the method build_knn.''),
      demo_embedder (Finite 0) None)"
proof -
  have h: "knn (demo_embedder (Finite 0) None) = None"
    by (simp add: demo_embedder_def)
  from query_without_index_fails [where self = "demo_embedder (Finite 0) None"
      and knn_query = demo_query and embeddings = 3 and k = 50 and ef_arg = 100, OF h] h
  show ?thesis
    by simp
qed

text \<open>
  C6. When the path is not an existing file, \<^verbatim>\<open>load_knn_index\<close> returns normally, prints the
  one warning line naming the path, and leaves \<^verbatim>\<open>self.knn\<close> unset.
\<close>

theorem load_missing_file_unsets_index:
  "fs knn_file = None \<Longrightarrow>
     load_knn_index fs load_index bc self knn_file =
       (Inr (), self\<lparr>knn := None\<rparr>,
        [WARNING bc @ ''Warning: No KNN index found at '' @ knn_file @ ENDC bc])"
  by (simp add: load_knn_index_def)

theorem load_missing_file_unsets_index_witness:
  "(Map.empty :: string \<Rightarrow> nat option) ''knn.bin'' = None \<and>
   load_knn_index (Map.empty :: string \<Rightarrow> nat option) (\<lambda>ix blob. Inr ix) demo_colors
       (demo_embedder (Finite 0) None) ''knn.bin'' =
     (Inr (), demo_embedder (Finite 0) None,
      [''[93mWarning: No KNN index found at knn.bin[0m''])"
proof -
  have h: "(Map.empty :: string \<Rightarrow> nat option) ''knn.bin'' = None"
    by simp
  from load_missing_file_unsets_index [where fs = "Map.empty :: string \<Rightarrow> nat option"
      and knn_file = "''knn.bin''" and load_index = "\<lambda>ix blob. Inr ix" and bc = demo_colors
      and self = "demo_embedder (Finite 0) None", OF h]
  show ?thesis
    by (simp add: demo_embedder_def demo_colors_def)
qed

text \<open>
  C9. When an index is loaded and \<^verbatim>\<open>load_knn_index\<close> is called with a path that is not an
  existing file, the call returns normally, the index held before is gone
  (\<^verbatim>\<open>self.knn\<close> is \<^verbatim>\<open>None\<close>), and a following \<^verbatim>\<open>get_nearest_neighbors\<close> fails with the
  not-initialized error.
\<close>

theorem failed_load_discards_index:
  "knn self = Some idx \<Longrightarrow> fs knn_file = None \<Longrightarrow>
     (case load_knn_index fs load_index bc self knn_file of
        (outcome, self', printed) \<Rightarrow>
          outcome = Inr () \<and> knn self' = None \<and>
          fst (get_nearest_neighbors knn_query self' embeddings k ef_arg) =
            Inl (RuntimeError
              ''kNN is not initialized. If no kNN index file is found, run the method build_knn.''))"
  by (simp add: load_knn_index_def get_nearest_neighbors_def)

theorem failed_load_discards_index_witness:
  "knn (demo_embedder (Finite 0) (Some (demo_index 10))) = Some (demo_index 10) \<and>
   (Map.empty :: string \<Rightarrow> nat option) ''knn.bin'' = None \<and>
   knn (fst (snd (load_knn_index (Map.empty :: string \<Rightarrow> nat option) (\<lambda>ix blob. Inr ix)
          demo_colors (demo_embedder (Finite 0) (Some (demo_index 10))) ''knn.bin''))) = None \<and>
   fst (get_nearest_neighbors demo_query
          (fst (snd (load_knn_index (Map.empty :: string \<Rightarrow> nat option) (\<lambda>ix blob. Inr ix)
             demo_colors (demo_embedder (Finite 0) (Some (demo_index 10))) ''knn.bin'')))
          3 50 100) =
     Inl (RuntimeError
       ''kNN is not initialized. If no kNN index file is found, run the method build_knn.'')"
proof -
  have h1: "knn (demo_embedder (Finite 0) (Some (demo_index 10))) = Some (demo_index 10)"
    by (simp add: demo_embedder_def)
  have h2: "(Map.empty :: string \<Rightarrow> nat option) ''knn.bin'' = None"
    by simp
  from failed_load_discards_index [where self = "demo_embedder (Finite 0) (Some (demo_index 10))"
      and idx = "demo_index 10" and fs = "Map.empty :: string \<Rightarrow> nat option"
      and knn_file = "''knn.bin''" and load_index = "\<lambda>ix blob. Inr ix" and bc = demo_colors
      and knn_query = demo_query and embeddings = 3 and k = 50 and ef_arg = 100, OF h1 h2]
    h1 h2
  show ?thesis
    by (simp split: prod.splits)
qed

text \<open>
  C4, as stated, fails: \<^verbatim>\<open>get_nearest_neighbors\<close> calls \<^verbatim>\<open>set_ef\<close> on the index before it
  queries. An index whose search breadth is 10, queried with the default \<^verbatim>\<open>ef = 100\<close> through
  a query function that leaves the index alone, has search breadth 100 afterwards.
\<close>

theorem query_changes_index_counterexample:
  "knn (demo_embedder (Finite 0) (Some (demo_index 10))) = Some (demo_index 10) \<and>
   knn (snd (get_nearest_neighbors demo_query
          (demo_embedder (Finite 0) (Some (demo_index 10))) 3 50 100)) = Some (demo_index 100) \<and>
   demo_index 100 \<noteq> demo_index 10"
  by (simp add: get_nearest_neighbors_def demo_embedder_def demo_index_def demo_query_def
      set_ef_def)

text \<open>
  C4, amended. Take a loaded index and a library query that, at this call, leaves the index
  as it finds it. An \<^verbatim>\<open>ef\<close> argument that \<^verbatim>\<open>set_ef\<close> refuses (below 0 or from \<open>2\<^sup>6\<^sup>4\<close> on) makes
  \<^verbatim>\<open>get_nearest_neighbors\<close> fail with the \<^verbatim>\<open>TypeError\<close> before any query, with the adapter
  and the index unchanged. Any other \<^verbatim>\<open>ef\<close> is written to the index and the query is answered
  on the index so changed. In both cases the adapter still holds an index with the same
  space, dimension and indexed vectors, its other fields are untouched, and the search
  breadth is the only part of the index state that can differ; a call whose \<^verbatim>\<open>ef\<close> equals
  the current search breadth leaves the whole state unchanged.
\<close>

theorem query_sets_only_ef:
  assumes "knn self = Some idx"
    and "0 \<le> ef_arg \<and> ef_arg < 2 ^ 64 \<longrightarrow>
           snd (knn_query (idx\<lparr>ef := ef_arg\<rparr>) embeddings k) = idx\<lparr>ef := ef_arg\<rparr>"
  shows "(\<exists>idx'. knn (snd (get_nearest_neighbors knn_query self embeddings k ef_arg)) = Some idx' \<and>
            space idx' = space idx \<and> dim idx' = dim idx \<and> elements idx' = elements idx \<and>
            ef idx' = (if 0 \<le> ef_arg \<and> ef_arg < 2 ^ 64 then ef_arg else ef idx)) \<and>
         use_gpu (snd (get_nearest_neighbors knn_query self embeddings k ef_arg)) = use_gpu self \<and>
         latent_dim (snd (get_nearest_neighbors knn_query self embeddings k ef_arg))
           = latent_dim self \<and>
         model (snd (get_nearest_neighbors knn_query self embeddings k ef_arg)) = model self \<and>
         (0 \<le> ef_arg \<and> ef_arg < 2 ^ 64 \<longrightarrow>
            fst (get_nearest_neighbors knn_query self embeddings k ef_arg)
              = fst (knn_query (idx\<lparr>ef := ef_arg\<rparr>) embeddings k)) \<and>
         (\<not> (0 \<le> ef_arg \<and> ef_arg < 2 ^ 64) \<longrightarrow>
            get_nearest_neighbors knn_query self embeddings k ef_arg
              = (Inl (TypeError ''set_ef(): incompatible function arguments.''), self)) \<and>
         (ef idx = ef_arg \<longrightarrow>
            snd (get_nearest_neighbors knn_query self embeddings k ef_arg) = self)"
proof (cases "0 \<le> ef_arg \<and> ef_arg < 2 ^ 64")
  case True
  with assms(2) have ro: "snd (knn_query (idx\<lparr>ef := ef_arg\<rparr>) embeddings k) = idx\<lparr>ef := ef_arg\<rparr>"
    by simp
  have g: "get_nearest_neighbors knn_query self embeddings k ef_arg =
      (fst (knn_query (idx\<lparr>ef := ef_arg\<rparr>) embeddings k),
       self\<lparr>knn := Some (idx\<lparr>ef := ef_arg\<rparr>)\<rparr>)"
    using assms(1) True ro
    by (auto simp: get_nearest_neighbors_def set_ef_def split: prod.splits)
  have same: "ef idx = ef_arg \<Longrightarrow> self\<lparr>knn := Some (idx\<lparr>ef := ef_arg\<rparr>)\<rparr> = self"
    using assms(1) by auto
  from True same show ?thesis
    unfolding g by simp
next
  case False
  have g: "get_nearest_neighbors knn_query self embeddings k ef_arg =
      (Inl (TypeError ''set_ef(): incompatible function arguments.''), self)"
  proof -
    from False have "set_ef ef_arg idx
        = Inl (TypeError ''set_ef(): incompatible function arguments.'')"
      unfolding set_ef_def by (rule if_not_P)
    with assms(1) show ?thesis
      by (simp add: get_nearest_neighbors_def)
  qed
  from False assms(1) show ?thesis
    unfolding g by auto
qed

theorem query_sets_only_ef_witness:
  "knn (demo_embedder (Finite 0) (Some (demo_index 10))) = Some (demo_index 10) \<and>
   snd (demo_query ((demo_index 10)\<lparr>ef := 100\<rparr>) 3 2) = (demo_index 10)\<lparr>ef := 100\<rparr> \<and>
   get_nearest_neighbors demo_query (demo_embedder (Finite 0) (Some (demo_index 10))) 3 2 100 =
     (Inr [7, 8], demo_embedder (Finite 0) (Some (demo_index 100))) \<and>
   get_nearest_neighbors demo_query (demo_embedder (Finite 0) (Some (demo_index 10))) 3 2 (- 5) =
     (Inl (TypeError ''set_ef(): incompatible function arguments.''),
      demo_embedder (Finite 0) (Some (demo_index 10))) \<and>
   ef (demo_index 100) = 100 \<and>
   snd (get_nearest_neighbors demo_query (demo_embedder (Finite 0) (Some (demo_index 100)))
          3 2 100) = demo_embedder (Finite 0) (Some (demo_index 100))"
proof -
  let ?s10 = "demo_embedder (Finite 0) (Some (demo_index 10))"
  let ?s100 = "demo_embedder (Finite 0) (Some (demo_index 100))"
  have h: "knn ?s10 = Some (demo_index 10)"
    by (simp add: demo_embedder_def)
  have h': "knn ?s100 = Some (demo_index 100)"
    by (simp add: demo_embedder_def)
  have ro: "snd (demo_query ((demo_index 10)\<lparr>ef := 100\<rparr>) 3 2) = (demo_index 10)\<lparr>ef := 100\<rparr>"
    by (simp add: demo_query_def)
  have ro': "snd (demo_query ((demo_index 100)\<lparr>ef := 100\<rparr>) 3 2)
      = (demo_index 100)\<lparr>ef := 100\<rparr>"
    by (simp add: demo_query_def)
  have e: "ef (demo_index 100) = 100"
    by (simp add: demo_index_def)
  have v: "get_nearest_neighbors demo_query ?s10 3 2 100 = (Inr [7, 8], ?s100)"
    by (simp add: get_nearest_neighbors_def set_ef_def demo_embedder_def demo_index_def
        demo_query_def numeral_2_eq_2)
  have bad: "\<not> (0 \<le> (- 5 :: int) \<and> (- 5 :: int) < 2 ^ 64)"
    by simp
  from query_sets_only_ef [where self = ?s10 and idx = "demo_index 10"
      and knn_query = demo_query and embeddings = 3 and k = 2 and ef_arg = "- 5", OF h] bad
  have t: "get_nearest_neighbors demo_query ?s10 3 2 (- 5) =
      (Inl (TypeError ''set_ef(): incompatible function arguments.''), ?s10)"
    by blast
  from query_sets_only_ef [where self = ?s100 and idx = "demo_index 100"
      and knn_query = demo_query and embeddings = 3 and k = 2 and ef_arg = 100, OF h'] ro' e
  have u: "snd (get_nearest_neighbors demo_query ?s100 3 2 100) = ?s100"
    by blast
  show ?thesis
    by (intro conjI) (rule h ro v t e u)+
qed

section \<open>Batched embedding\<close>

subsection \<open>Chunks of a supported matrix\<close>

lemma isnan_iff: "isnan x \<longleftrightarrow> x = NaN"
  by (cases x) simp_all

lemma any_isnan_iff: "list_ex (list_ex isnan) e \<longleftrightarrow> (\<exists>row \<in> set e. NaN \<in> set row)"
  by (auto simp: list_ex_iff isnan_iff)

lemma finite_not_nan: "isfinite x \<Longrightarrow> x \<noteq> NaN"
  by (cases x) simp_all

lemma slice_bound_nat: "slice_bound n (int m) = min m n"
  by (simp add: slice_bound_def)

lemma slice_chunk_nat:
  "py_slice xs (int (k * B)) (int (k * B + B)) = take B (drop (k * B) xs)"
proof -
  have lo: "slice_bound (length xs) (int (k * B)) = min (k * B) (length xs)"
    by (rule slice_bound_nat)
  have hi: "slice_bound (length xs) (int (k * B + B)) = min (k * B + B) (length xs)"
    by (rule slice_bound_nat)
  show ?thesis
  proof (cases "k * B < length xs")
    case True
    then show ?thesis
      unfolding py_slice_def lo hi Let_def by (simp add: min_def)
  next
    case False
    then show ?thesis
      unfolding py_slice_def lo hi Let_def by (simp add: min_def)
  qed
qed

lemma slice_chunk:
  assumes "0 < b"
  shows "py_slice xs (int k * b) (int k * b + b) = take (nat b) (drop (k * nat b) xs)"
proof -
  from assms have b: "b = int (nat b)" by simp
  have "py_slice xs (int k * int (nat b)) (int k * int (nat b) + int (nat b))
      = py_slice xs (int (k * nat b)) (int (k * nat b + nat b))"
    by (simp only: of_nat_mult of_nat_add)
  also have "\<dots> = take (nat b) (drop (k * nat b) xs)"
    by (rule slice_chunk_nat)
  finally show ?thesis using b by simp
qed

lemma concat_chunks:
  "concat (map (\<lambda>k. take B (drop (k * B) xs)) [0..<K]) = take (K * B) xs"
proof (induction K)
  case 0
  then show ?case by simp
next
  case (Suc K)
  have "take (K * B) xs @ take B (drop (K * B) xs) = take (K * B + B) xs"
    by (simp add: take_add)
  with Suc show ?case by (simp add: add.commute)
qed

lemma ceil_div_covers:
  assumes "0 < (b :: int)"
  shows "r \<le> ((r + b - 1) div b) * b"
proof -
  have "(r + b - 1) div b * b = (r + b - 1) - (r + b - 1) mod b"
    by (simp add: minus_mod_eq_div_mult)
  moreover have "(r + b - 1) mod b \<le> b - 1"
    using assms pos_mod_bound [of b "r + b - 1"] by simp
  ultimately show ?thesis by simp
qed

lemma fed_chunks_supported:
  "mat_rows X = Some xs \<Longrightarrow>
     fed_chunks X b steps = map (\<lambda>i. py_slice xs i (i + b)) steps"
  by (cases X) (simp_all add: fed_chunks_def map_filter_def comp_def)

lemma shape0_rows: "mat_rows X = Some xs \<Longrightarrow> mat_shape0 X = Some (length xs)"
  by (cases X) simp_all

lemma chunks_cover_rows:
  assumes "0 < b" "mat_rows X = Some xs"
  shows "\<exists>steps. py_range (int (length xs)) b = Inr steps \<and> concat (fed_chunks X b steps) = xs"
proof -
  let ?K = "nat ((int (length xs) + b - 1) div b)"
  let ?steps = "map (\<lambda>k. int k * b) [0..<?K]"
  have r: "py_range (int (length xs)) b = Inr ?steps"
    using assms(1) by (simp add: py_range_def)
  have "concat (fed_chunks X b ?steps)
      = concat (map (\<lambda>k. take (nat b) (drop (k * nat b) xs)) [0..<?K])"
    using assms by (simp add: fed_chunks_supported comp_def slice_chunk)
  also have "\<dots> = take (?K * nat b) xs"
    by (rule concat_chunks)
  also have "\<dots> = xs"
  proof -
    have "int (length xs) \<le> ((int (length xs) + b - 1) div b) * b"
      using assms(1) by (rule ceil_div_covers)
    moreover have "0 \<le> (int (length xs) + b - 1) div b"
      using assms(1) by (simp add: pos_imp_zdiv_nonneg_iff)
    ultimately have "int (length xs) \<le> int (?K * nat b)"
      using assms(1) by simp
    then have "length xs \<le> ?K * nat b" by linarith
    then show ?thesis by simp
  qed
  finally show ?thesis using r by blast
qed

text \<open>
  For a matrix of a supported type, each part appended by the loop is the encoder's answer
  to the next chunk.
\<close>

lemma embed_loop_feeds_chunks:
  "embed_loop self X b acc steps = Inr parts \<Longrightarrow>
     \<exists>new. parts = acc @ new \<and> map (model self) (fed_chunks X b steps) = map Inr new"
proof (induction steps arbitrary: acc)
  case Nil
  then show ?case by (simp add: fed_chunks_def map_filter_simps)
next
  case (Cons i rest)
  from Cons.prems obtain chunk part where
    c: "profiles X i b = Some chunk" and m: "model self chunk = Inr part"
    and r: "embed_loop self X b (acc @ [part]) rest = Inr parts"
    by (auto split: option.splits sum.splits)
  from Cons.IH [OF r] obtain new where
    n: "parts = (acc @ [part]) @ new" "map (model self) (fed_chunks X b rest) = map Inr new"
    by blast
  have "fed_chunks X b (i # rest) = chunk # fed_chunks X b rest"
    using c by (simp add: fed_chunks_def map_filter_simps)
  with n m show ?case by simp
qed

lemma embed_loop_from_chunks:
  "mat_rows X = Some xs \<Longrightarrow> map (model self) (fed_chunks X b steps) = map Inr new \<Longrightarrow>
     embed_loop self X b acc steps = Inr (acc @ new)"
proof (induction steps arbitrary: acc new)
  case Nil
  then show ?case by (simp add: fed_chunks_def map_filter_simps)
next
  case (Cons i rest)
  from Cons.prems(1) have p: "profiles X i b = Some (py_slice xs i (i + b))"
    by (cases X) simp_all
  then have f: "fed_chunks X b (i # rest) = py_slice xs i (i + b) # fed_chunks X b rest"
    by (simp add: fed_chunks_def map_filter_simps)
  with Cons.prems(2) obtain part new' where
    n: "new = part # new'" "model self (py_slice xs i (i + b)) = Inr part"
       "map (model self) (fed_chunks X b rest) = map Inr new'"
    by (cases new) auto
  from Cons.IH [OF Cons.prems(1) n(3), of "acc @ [part]"] p n(1,2) show ?case
    by simp
qed

text \<open>
  So the loop returns a list of parts exactly when the encoder answers every chunk, and
  the parts are its answers in order.
\<close>

lemma embed_loop_iff_chunks:
  assumes "mat_rows X = Some xs"
  shows "embed_loop self X b [] steps = Inr parts \<longleftrightarrow>
           map (model self) (fed_chunks X b steps) = map Inr parts"
proof
  assume "embed_loop self X b [] steps = Inr parts"
  from embed_loop_feeds_chunks [OF this] show
    "map (model self) (fed_chunks X b steps) = map Inr parts"
    by simp
next
  assume "map (model self) (fed_chunks X b steps) = map Inr parts"
  from embed_loop_from_chunks [OF assms this, of "[]"] show
    "embed_loop self X b [] steps = Inr parts"
    by simp
qed

lemma get_embeddings_Inr:
  "get_embeddings self X n b = Inr e \<Longrightarrow>
     \<exists>parts. embedding_parts_of self X n b = Inr parts \<and> e = concat parts"
  by (auto simp: get_embeddings_def vstack_def Let_def split: sum.splits if_splits)

text \<open>
  When the resolved row count is not positive and the chunk size is positive, the loop does
  not run and the call fails with the \<^verbatim>\<open>No valid cells detected.\<close> error.
\<close>

lemma no_steps_no_cells:
  assumes "resolve_num_cells X num_cells = Inr m" and "m \<le> 0" and "0 < buffer_size"
  shows "get_embeddings self X num_cells buffer_size =
           Inl (RuntimeError ''No valid cells detected.'')"
proof -
  have "(m + buffer_size - 1) div buffer_size \<le> (buffer_size - 1) div buffer_size"
    using assms(2,3) by (intro zdiv_mono1) simp_all
  also have "\<dots> = 0"
    using assms(3) by (simp add: div_pos_pos_trivial)
  finally have "(m + buffer_size - 1) div buffer_size \<le> 0" .
  then have "py_range m buffer_size = Inr []"
    using assms(3) by (simp add: py_range_def)
  with assms(1) show ?thesis
    by (simp add: get_embeddings_def embedding_parts_of_def)
qed

subsection \<open>The sentinel row count\<close>

text \<open>
  C7. For an input with \<open>R\<close> rows, \<^verbatim>\<open>get_embeddings\<close> with \<^verbatim>\<open>num_cells = -1\<close> gives the same
  outcome as with \<^verbatim>\<open>num_cells = R\<close>, for every chunk size. For a positive chunk size and a
  matrix of a supported type, the call with \<^verbatim>\<open>-1\<close> processes exactly the \<open>R\<close> rows: the chunks
  cut at the loop indices are, in order, the \<open>R\<close> rows of the input; the loop returns a list of
  parts exactly when that list is the encoder's answers to these chunks, one part per chunk
  in order; and an embedding returned by \<^verbatim>\<open>get_embeddings\<close> is those answers stacked.
\<close>

theorem all_rows_sentinel:
  assumes "mat_shape0 X = Some R"
  shows "get_embeddings self X (- 1) b = get_embeddings self X (int R) b \<and>
         (0 < b \<longrightarrow>
            (\<forall>xs. mat_rows X = Some xs \<longrightarrow>
               (\<exists>steps. py_range (int R) b = Inr steps \<and>
                        concat (fed_chunks X b steps) = xs \<and>
                        length (concat (fed_chunks X b steps)) = R \<and>
                        (\<forall>parts. embedding_parts_of self X (- 1) b = Inr parts \<longleftrightarrow>
                                   map (model self) (fed_chunks X b steps) = map Inr parts) \<and>
                        (\<forall>e. get_embeddings self X (- 1) b = Inr e \<longrightarrow>
                               (\<exists>parts. map (model self) (fed_chunks X b steps) = map Inr parts \<and>
                                        e = concat parts)))))"
proof -
  have res: "resolve_num_cells X (- 1) = Inr (int R)"
    using assms by (simp add: resolve_num_cells_def)
  have "resolve_num_cells X (int R) = Inr (int R)"
    by (simp add: resolve_num_cells_def)
  with res have eq: "get_embeddings self X (- 1) b = get_embeddings self X (int R) b"
    by (simp add: get_embeddings_def embedding_parts_of_def)
  have "\<exists>steps. py_range (int R) b = Inr steps \<and>
                concat (fed_chunks X b steps) = xs \<and>
                length (concat (fed_chunks X b steps)) = R \<and>
                (\<forall>parts. embedding_parts_of self X (- 1) b = Inr parts \<longleftrightarrow>
                           map (model self) (fed_chunks X b steps) = map Inr parts) \<and>
                (\<forall>e. get_embeddings self X (- 1) b = Inr e \<longrightarrow>
                       (\<exists>parts. map (model self) (fed_chunks X b steps) = map Inr parts \<and>
                                e = concat parts))"
    if "0 < b" "mat_rows X = Some xs" for xs
  proof -
    from that(2) assms have len: "length xs = R"
      by (simp add: shape0_rows)
    from chunks_cover_rows [OF that] len obtain steps where
      st: "py_range (int R) b = Inr steps" "concat (fed_chunks X b steps) = xs"
      by auto
    from res st(1) have loop: "embedding_parts_of self X (- 1) b = embed_loop self X b [] steps"
      by (simp add: embedding_parts_of_def)
    have parts_iff: "embedding_parts_of self X (- 1) b = Inr parts \<longleftrightarrow>
        map (model self) (fed_chunks X b steps) = map Inr parts" for parts
      unfolding loop by (rule embed_loop_iff_chunks [OF that(2)])
    have out: "\<exists>parts. map (model self) (fed_chunks X b steps) = map Inr parts \<and> e = concat parts"
      if "get_embeddings self X (- 1) b = Inr e" for e
      using get_embeddings_Inr [OF that] parts_iff by blast
    from st len parts_iff out show ?thesis
      by blast
  qed
  with eq show ?thesis by blast
qed

theorem all_rows_sentinel_witness:
  "mat_shape0 (Ndarray [1, 2, 3 :: nat]) = Some 3 \<and>
   get_embeddings (demo_embedder (Finite 0) (None :: nat hnsw_index option))
       (Ndarray [1, 2, 3]) (- 1) 2 =
     get_embeddings (demo_embedder (Finite 0) (None :: nat hnsw_index option))
       (Ndarray [1, 2, 3]) (int 3) 2 \<and>
   get_embeddings (demo_embedder (Finite 0) (None :: nat hnsw_index option))
       (Ndarray [1, 2, 3]) (- 1) 2 = Inr [[Finite 0], [Finite 0], [Finite 0]] \<and>
   (0 :: int) < 2 \<and>
   mat_rows (Ndarray [1, 2, 3 :: nat]) = Some [1, 2, 3] \<and>
   py_range (int 3) 2 = Inr [0, 2] \<and>
   fed_chunks (Ndarray [1, 2, 3 :: nat]) 2 [0, 2] = [[1, 2], [3]] \<and>
   embedding_parts_of (demo_embedder (Finite 0) (None :: nat hnsw_index option))
       (Ndarray [1, 2, 3]) (- 1) 2 = Inr [[[Finite 0], [Finite 0]], [[Finite 0]]] \<and>
   map (model (demo_embedder (Finite 0) (None :: nat hnsw_index option)))
       (fed_chunks (Ndarray [1, 2, 3 :: nat]) 2 [0, 2])
     = map Inr [[[Finite 0], [Finite 0]], [[Finite 0]]]"
proof -
  let ?X = "Ndarray [1, 2, 3 :: nat]"
  let ?self = "demo_embedder (Finite 0) (None :: nat hnsw_index option)"
  let ?parts = "[[[Finite 0], [Finite 0]], [[Finite 0]]]"
  have h: "mat_shape0 ?X = Some 3"
    by simp
  have r: "mat_rows ?X = Some [1, 2, 3]"
    by simp
  have p: "(0 :: int) < 2"
    by simp
  have steps: "py_range (int 3) 2 = Inr [0, 2]"
    by (simp add: py_range_def upt_conv_Cons)
  have ch: "fed_chunks ?X 2 [0, 2] = [[1, 2], [3]]"
    by (simp add: fed_chunks_def map_filter_simps py_slice_def slice_bound_def Let_def)
  have ps: "embedding_parts_of ?self ?X (- 1) 2 = Inr ?parts"
    using steps
    by (simp add: embedding_parts_of_def resolve_num_cells_def
        demo_embedder_def const_encoder_def py_slice_def slice_bound_def Let_def)
  have v: "get_embeddings ?self ?X (- 1) 2 = Inr [[Finite 0], [Finite 0], [Finite 0]]"
    unfolding get_embeddings_def ps by (simp add: vstack_def)
  note t = all_rows_sentinel [where X = ?X and R = 3 and self = ?self and b = 2, OF h]
  from t have e: "get_embeddings ?self ?X (- 1) 2 = get_embeddings ?self ?X (int 3) 2"
    by (rule conjunct1)
  from t p r obtain st where
    st: "py_range (int 3) 2 = Inr st"
    and link: "\<forall>parts. embedding_parts_of ?self ?X (- 1) 2 = Inr parts \<longleftrightarrow>
                 map (model ?self) (fed_chunks ?X 2 st) = map Inr parts"
    by blast
  from st steps have "st = [0, 2]"
    by simp
  with link ps have m: "map (model ?self) (fed_chunks ?X 2 [0, 2]) = map Inr ?parts"
    by blast
  show ?thesis
    by (intro conjI) (rule h e v p r steps ch ps m)+
qed

subsection \<open>The check of the produced embedding\<close>

text \<open>
  C1, as stated, fails for infinite entries: the check is \<^verbatim>\<open>np.isnan\<close>, so an encoder
  answering \<open>+inf\<close> on a one-row array gets its array returned.
\<close>

theorem inf_passes_nan_check_counterexample:
  "get_embeddings (demo_embedder PosInf (None :: nat hnsw_index option)) (Ndarray [0]) (- 1) 10000
     = Inr [[PosInf]] \<and>
   \<not> isfinite PosInf"
  by (simp add: get_embeddings_def embedding_parts_of_def resolve_num_cells_def py_range_def
      demo_embedder_def const_encoder_def py_slice_def slice_bound_def vstack_def Let_def)

text \<open>
  C1, amended. When the loop has produced at least one part, \<^verbatim>\<open>get_embeddings\<close> fails with
  the \<^verbatim>\<open>NaN detected in embeddings.\<close> error if some entry of the stacked embedding is NaN,
  and otherwise returns the stacked embedding, whether or not it has infinite entries. In
  particular an embedding whose entries are all finite is returned.
\<close>

theorem nan_check:
  assumes "embedding_parts_of self X num_cells buffer_size = Inr parts" and "parts \<noteq> []"
  shows "get_embeddings self X num_cells buffer_size =
           (if \<exists>row \<in> set (concat parts). NaN \<in> set row
            then Inl (RuntimeError ''NaN detected in embeddings.'')
            else Inr (concat parts)) \<and>
         ((\<forall>row \<in> set (concat parts). \<forall>x \<in> set row. isfinite x) \<longrightarrow>
            get_embeddings self X num_cells buffer_size = Inr (concat parts))"
proof -
  have g: "get_embeddings self X num_cells buffer_size =
           (if \<exists>row \<in> set (concat parts). NaN \<in> set row
            then Inl (RuntimeError ''NaN detected in embeddings.'')
            else Inr (concat parts))"
    using assms by (simp add: get_embeddings_def vstack_def Let_def any_isnan_iff)
  have "\<not> (\<exists>row \<in> set (concat parts). NaN \<in> set row)"
    if "\<forall>row \<in> set (concat parts). \<forall>x \<in> set row. isfinite x"
    using that finite_not_nan by blast
  with g show ?thesis by simp
qed

theorem nan_check_witness:
  "embedding_parts_of (demo_embedder NaN (None :: nat hnsw_index option)) (Ndarray [0]) (- 1) 10000
     = Inr [[[NaN]]] \<and>
   [[[NaN]]] \<noteq> [] \<and>
   get_embeddings (demo_embedder NaN (None :: nat hnsw_index option)) (Ndarray [0]) (- 1) 10000
     = Inl (RuntimeError ''NaN detected in embeddings.'') \<and>
   embedding_parts_of (demo_embedder (Finite 2) (None :: nat hnsw_index option)) (Ndarray [0]) (- 1) 10000
     = Inr [[[Finite 2]]] \<and>
   get_embeddings (demo_embedder (Finite 2) (None :: nat hnsw_index option)) (Ndarray [0]) (- 1) 10000
     = Inr [[Finite 2]]"
proof -
  let ?n = "demo_embedder NaN (None :: nat hnsw_index option)"
  let ?f = "demo_embedder (Finite 2) (None :: nat hnsw_index option)"
  have p: "embedding_parts_of ?n (Ndarray [0]) (- 1) 10000 = Inr [[[NaN]]]"
    by (simp add: embedding_parts_of_def resolve_num_cells_def py_range_def
        demo_embedder_def const_encoder_def py_slice_def slice_bound_def Let_def)
  have q: "embedding_parts_of ?f (Ndarray [0]) (- 1) 10000 = Inr [[[Finite 2]]]"
    by (simp add: embedding_parts_of_def resolve_num_cells_def py_range_def
        demo_embedder_def const_encoder_def py_slice_def slice_bound_def Let_def)
  have ne: "[[[NaN]]] \<noteq> []" "[[[Finite 2]]] \<noteq> []"
    by simp_all
  from nan_check [OF p ne(1)] nan_check [OF q ne(2)] p q show ?thesis
    by simp
qed

subsection \<open>An empty matrix with an explicit row count\<close>

text \<open>
  C8. The guard after the loop tests whether the list of parts is empty, not whether any
  row was embedded. For an empty array and \<^verbatim>\<open>num_cells = 5\<close> the loop runs once on an empty
  chunk, so with an encoder that answers one row per input row the call returns an empty
  embedding instead of failing.
\<close>

theorem empty_matrix_with_count_returns:
  "get_embeddings (demo_embedder (Finite 0) (None :: nat hnsw_index option)) (Ndarray []) 5 10000
     = Inr []"
  by (simp add: get_embeddings_def embedding_parts_of_def resolve_num_cells_def py_range_def
      demo_embedder_def const_encoder_def py_slice_def slice_bound_def vstack_def Let_def)

section \<open>Sampler weights\<close>

lemma Counter_pos: "x \<in> set xs \<Longrightarrow> 0 < Counter xs x"
  unfolding Counter_def by (induction xs) auto

text \<open>
  Without studies every row gets the finite positive weight \<open>1 / frequency(label)\<close>.
\<close>

lemma sampler_weights_labels_only:
  assumes "labels \<noteq> []"
  shows "get_sampler_weights labels None =
           Inr \<lparr> weights = map (\<lambda>t. Finite (1 / real (count_list labels t))) labels,
                 num_samples = length labels, replacement = True \<rparr> \<and>
         (\<forall>t \<in> set labels. 0 < 1 / real (count_list labels t))"
  using assms Counter_pos [of _ labels]
  by (simp add: get_sampler_weights_def WeightedRandomSampler_def Let_def Counter_def)

text \<open>
  With a parallel study sequence the weight of a row is \<open>1 / frequency(label) / ln(frequency(study))\<close>,
  finite and positive, when its study occurs at least twice, and \<open>+inf\<close> when its study
  occurs once.
\<close>

lemma study_weight_cases:
  assumes "0 < c" and "0 < s"
  shows "np_div (1 / real c) (np_log s) =
           (if s = 1 then PosInf else Finite (1 / real c / ln (real s)))"
  using assms by (simp add: np_log_def)

lemma sampler_weights_with_studies:
  assumes "labels \<noteq> []" and "length studies = length labels"
  shows "\<exists>smp. get_sampler_weights labels (Some studies) = Inr smp \<and>
           num_samples smp = length labels \<and>
           length (weights smp) = length labels \<and>
           (\<forall>i < length labels.
              weights smp ! i =
                (if count_list studies (studies ! i) = 1 then PosInf
                 else Finite (1 / real (count_list labels (labels ! i))
                                / ln (real (count_list studies (studies ! i))))) \<and>
              (1 < count_list studies (studies ! i) \<longrightarrow>
                 0 < 1 / real (count_list labels (labels ! i))
                       / ln (real (count_list studies (studies ! i)))))"
proof -
  let ?w = "map (\<lambda>i. np_div (1 / real (Counter labels (labels ! i)))
                           (np_log (Counter studies (studies ! i)))) [0..<length labels]"
  have g: "get_sampler_weights labels (Some studies) =
             Inr \<lparr> weights = ?w, num_samples = length labels, replacement = True \<rparr>"
    using assms by (simp add: get_sampler_weights_def WeightedRandomSampler_def Let_def)
  have "?w ! i =
          (if count_list studies (studies ! i) = 1 then PosInf
           else Finite (1 / real (count_list labels (labels ! i))
                          / ln (real (count_list studies (studies ! i))))) \<and>
        (1 < count_list studies (studies ! i) \<longrightarrow>
           0 < 1 / real (count_list labels (labels ! i))
                 / ln (real (count_list studies (studies ! i))))"
    if "i < length labels" for i
  proof -
    from that assms have "0 < Counter labels (labels ! i)" "0 < Counter studies (studies ! i)"
      by (simp_all add: Counter_pos)
    then show ?thesis
      using that study_weight_cases [of "Counter labels (labels ! i)" "Counter studies (studies ! i)"]
      by (simp add: Counter_def)
  qed
  with g show ?thesis by simp
qed

text \<open>
  C2. The weight formulas are the ones computed, but not every weight is a finite positive
  real: for labels \<^verbatim>\<open>["a", "a", "b"]\<close> with studies \<^verbatim>\<open>["s1", "s1", "s2"]\<close> the third row belongs
  to a study that occurs once, \<^verbatim>\<open>np.log(1)\<close> is 0 and the weight of the row is \<open>+inf\<close>.
\<close>

theorem single_study_weight_infinite:
  "get_sampler_weights [''a'', ''a'', ''b''] (Some [''s1'', ''s1'', ''s2'']) =
     Inr \<lparr> weights = [Finite (1 / 2 / ln 2), Finite (1 / 2 / ln 2), PosInf],
           num_samples = 3, replacement = True \<rparr> \<and>
   \<not> isfinite PosInf"
  by (simp add: get_sampler_weights_def WeightedRandomSampler_def Let_def Counter_def
      np_log_def upt_conv_Cons)

section \<open>Two-way weighting\<close>

lemma weight_cell:
  "replace_inf_0 (one_over n) = (if 0 < n then Finite (1 / real n) else Finite 0)"
  by (simp add: one_over_def)

lemma keys_unstack:
  "map fst (unstack_to_dict d) = List.product (df_columns d) (df_index d)"
  by (simp add: unstack_to_dict_def List.product_concat_map map_concat comp_def)

lemma unstack_entry:
  "c \<in> set (df_columns d) \<Longrightarrow> r \<in> set (df_index d) \<Longrightarrow>
     ((c, r), df_at d r c) \<in> set (unstack_to_dict d)"
  by (auto simp: unstack_to_dict_def)

lemma unstack_values:
  "kv \<in> set (unstack_to_dict d) \<Longrightarrow> \<exists>c r. snd kv = df_at d r c"
  by (fastforce simp: unstack_to_dict_def)

text \<open>
  C10, as stated, fails on the key: the dictionary is keyed by (category of the second
  sequence, category of the first). For \<^verbatim>\<open>vec1 = ["a", "a", "b"]\<close> and
  \<^verbatim>\<open>vec2 = ["b", "b", "a"]\<close> the pair (first \<^verbatim>\<open>a\<close>, second \<^verbatim>\<open>b\<close>) occurs in two rows, yet the
  entry under \<^verbatim>\<open>("a", "b")\<close> is 1, the weight of the pair (first \<^verbatim>\<open>b\<close>, second \<^verbatim>\<open>a\<close>).
\<close>

theorem two_way_key_order_counterexample:
  "two_way_weighting [''a'', ''a'', ''b''] [''b'', ''b'', ''a''] =
     Inr [((''b'', ''a''), Finite (1 / 2)), ((''b'', ''b''), Finite 0),
          ((''a'', ''a''), Finite 0), ((''a'', ''b''), Finite 1)] \<and>
   count_list (zip [''a'', ''a'', ''b''] [''b'', ''b'', ''a'']) (''a'', ''b'') = 2 \<and>
   map_of [((''b'', ''a''), Finite (1 / 2)), ((''b'', ''b''), Finite 0),
           ((''a'', ''a''), Finite 0), ((''a'', ''b''), Finite 1)] (''a'', ''b'')
     = Some (Finite 1) \<and>
   Finite 1 \<noteq> Finite (1 / 2)"
  by (simp add: two_way_weighting_def crosstab_def Let_def df_map_def unstack_to_dict_def
      one_over_def)

text \<open>
  C10, amended. For equal-length sequences \<^verbatim>\<open>two_way_weighting\<close> returns a dictionary whose
  keys are exactly the pairs (category of \<^verbatim>\<open>vec2\<close>, category of \<^verbatim>\<open>vec1\<close>), each once. The
  entry for a category \<open>r\<close> of \<^verbatim>\<open>vec1\<close> and a category \<open>c\<close> of \<^verbatim>\<open>vec2\<close>, under the key
  \<open>(c, r)\<close>, is 1 over the number of rows where \<open>r\<close> and \<open>c\<close> occur together when that number
  is positive, and 0 otherwise; every value of the dictionary is finite.
\<close>

theorem two_way_weights:
  assumes "length vec1 = length vec2"
  shows "\<exists>d. two_way_weighting vec1 vec2 = Inr d \<and>
           distinct (map fst d) \<and>
           set (map fst d) = set vec2 \<times> set vec1 \<and>
           (\<forall>r \<in> set vec1. \<forall>c \<in> set vec2.
              map_of d (c, r) =
                Some (if 0 < count_list (zip vec1 vec2) (r, c)
                      then Finite (1 / real (count_list (zip vec1 vec2) (r, c)))
                      else Finite 0)) \<and>
           (\<forall>kv \<in> set d. isfinite (snd kv))"
proof -
  let ?counts = "\<lparr> df_index = remdups vec1, df_columns = remdups vec2,
                    df_at = (\<lambda>r c. count_list (zip vec1 vec2) (r, c)) \<rparr>"
  let ?wm = "df_map replace_inf_0 (df_map one_over ?counts)"
  let ?d = "unstack_to_dict ?wm"
  have res: "two_way_weighting vec1 vec2 = Inr ?d"
    using assms by (simp add: two_way_weighting_def crosstab_def Let_def)
  have labels: "df_index ?wm = remdups vec1" "df_columns ?wm = remdups vec2"
    by (simp_all add: df_map_def)
  have cell: "df_at ?wm r c =
      (if 0 < count_list (zip vec1 vec2) (r, c)
       then Finite (1 / real (count_list (zip vec1 vec2) (r, c))) else Finite 0)" for r c
    by (simp add: df_map_def weight_cell)
  have keys: "map fst ?d = List.product (remdups vec2) (remdups vec1)"
    by (simp only: keys_unstack labels)
  have dist: "distinct (map fst ?d)"
    unfolding keys by (simp add: distinct_product)
  have dom: "set (map fst ?d) = set vec2 \<times> set vec1"
    unfolding keys by simp
  have look: "map_of ?d (c, r) =
      Some (if 0 < count_list (zip vec1 vec2) (r, c)
            then Finite (1 / real (count_list (zip vec1 vec2) (r, c))) else Finite 0)"
    if "r \<in> set vec1" "c \<in> set vec2" for r c
  proof -
    from that have "((c, r), df_at ?wm r c) \<in> set ?d"
      by (intro unstack_entry) (simp_all add: labels)
    with dist have "map_of ?d (c, r) = Some (df_at ?wm r c)"
      by (rule map_of_is_SomeI)
    then show ?thesis
      by (simp only: cell)
  qed
  have fin: "isfinite (snd kv)" if "kv \<in> set ?d" for kv
  proof -
    from unstack_values [OF that] obtain c r where "snd kv = df_at ?wm r c"
      by blast
    then show ?thesis
      by (simp add: cell)
  qed
  from res dist dom look fin show ?thesis
    by blast
qed

theorem two_way_weights_witness:
  "length [''a'', ''a'', ''b''] = length [''s'', ''s'', ''t''] \<and>
   two_way_weighting [''a'', ''a'', ''b''] [''s'', ''s'', ''t''] =
     Inr [((''s'', ''a''), Finite (1 / 2)), ((''s'', ''b''), Finite 0),
          ((''t'', ''a''), Finite 0), ((''t'', ''b''), Finite 1)] \<and>
   ''a'' \<in> set [''a'', ''a'', ''b''] \<and> ''s'' \<in> set [''s'', ''s'', ''t''] \<and>
   ''t'' \<in> set [''s'', ''s'', ''t''] \<and>
   map_of [((''s'', ''a''), Finite (1 / 2)), ((''s'', ''b''), Finite 0),
           ((''t'', ''a''), Finite 0), ((''t'', ''b''), Finite 1)] (''s'', ''a'')
     = Some (Finite (1 / 2)) \<and>
   map_of [((''s'', ''a''), Finite (1 / 2)), ((''s'', ''b''), Finite 0),
           ((''t'', ''a''), Finite 0), ((''t'', ''b''), Finite 1)] (''t'', ''a'')
     = Some (Finite 0)"
proof -
  let ?v1 = "[''a'', ''a'', ''b'']"
  let ?v2 = "[''s'', ''s'', ''t'']"
  let ?D = "[((''s'', ''a''), Finite (1 / 2)), ((''s'', ''b''), Finite 0),
             ((''t'', ''a''), Finite 0), ((''t'', ''b''), Finite 1)]"
  have len: "length ?v1 = length ?v2"
    by simp
  have ev: "two_way_weighting ?v1 ?v2 = Inr ?D"
    by (simp add: two_way_weighting_def crosstab_def Let_def df_map_def unstack_to_dict_def
        one_over_def)
  have mem: "''a'' \<in> set ?v1" "''s'' \<in> set ?v2" "''t'' \<in> set ?v2"
    by simp_all
  from two_way_weights [OF len] ev
  have all: "\<forall>r \<in> set ?v1. \<forall>c \<in> set ?v2.
      map_of ?D (c, r) =
        Some (if 0 < count_list (zip ?v1 ?v2) (r, c)
              then Finite (1 / real (count_list (zip ?v1 ?v2) (r, c))) else Finite 0)"
    by auto
  from all mem have "map_of ?D (''s'', ''a'') =
        Some (if 0 < count_list (zip ?v1 ?v2) (''a'', ''s'')
              then Finite (1 / real (count_list (zip ?v1 ?v2) (''a'', ''s''))) else Finite 0)"
    by blast
  then have s: "map_of ?D (''s'', ''a'') = Some (Finite (1 / 2))"
    by simp
  from all mem have "map_of ?D (''t'', ''a'') =
        Some (if 0 < count_list (zip ?v1 ?v2) (''a'', ''t'')
              then Finite (1 / real (count_list (zip ?v1 ?v2) (''a'', ''t''))) else Finite 0)"
    by blast
  then have t: "map_of ?D (''t'', ''a'') = Some (Finite 0)"
    by simp
  show ?thesis
    by (intro conjI) (rule len ev mem s t)+
qed

end
